theory Spec2Isabelle
  imports Complex_Main
begin

section \<open>Data model\<close>

text \<open>
  The worker module \<open>createCoplanarPolygonOutlineGeometry.js\<close> builds the outline of a
  coplanar polygon as a line list. A JavaScript number is modelled as a \<open>real\<close>: the
  module only copies coordinates and counts points, it never calculates with them.
\<close>

text \<open>A \<open>Cartesian3\<close>: an object with the numeric properties \<open>x\<close>, \<open>y\<close>, \<open>z\<close>.\<close>

record cartesian3 =
  cart_x :: real
  cart_y :: real
  cart_z :: real

text \<open>
  A polygon hierarchy (the \<open>PolygonHierarchy\<close> of the constructor's documentation):
  \<open>positions\<close> is the outer ring, \<open>holes\<close> the nested hierarchies. The object that
  \<open>fromPositions\<close> builds has no \<open>holes\<close> property: it is the hierarchy without holes.
  The empty object of \<open>scratchOptions\<close>, which only stands in until \<open>unpack\<close> stores
  the hierarchy it has read, is the hierarchy with neither points nor holes.
\<close>

datatype hierarchy = Hierarchy (positions: "cartesian3 list") (holes: "hierarchy list")

datatype componentDatatype = BYTE | UNSIGNED_BYTE | SHORT | UNSIGNED_SHORT | INT
  | UNSIGNED_INT | FLOAT | DOUBLE

datatype primitiveType = POINTS | LINES | LINE_LOOP | LINE_STRIP | TRIANGLES
  | TRIANGLE_STRIP | TRIANGLE_FAN

record geometryAttribute =
  componentDatatype :: componentDatatype
  componentsPerAttribute :: nat
  attr_values :: "real list"

record geometryAttributes =
  position :: geometryAttribute

text \<open>
  A \<open>Geometry\<close>; \<open>boundingSphere\<close> is \<open>None\<close> where the JavaScript property is
  undefined. The type of bounding spheres is left open.
\<close>

record 'b geometry =
  attributes :: geometryAttributes
  indices :: "nat list"
  primitiveType :: primitiveType
  boundingSphere :: "'b option"

record 'b geometryInstance =
  geometry :: "'b geometry"

section \<open>createGeometryFromPositions\<close>

text \<open>
  Modelled from the spec: \<open>IndexDatatype.createTypedArray\<close> is not part of this file.
  The index buffer holds vertex indices (section 3 of the specification); a fresh typed
  array of the requested length is filled with zeros.
\<close>

definition createTypedArray :: "nat \<Rightarrow> nat \<Rightarrow> nat list" where
  "createTypedArray numberOfVertices len = replicate len 0"

text \<open>\<open>new Float64Array(n)\<close>: \<open>n\<close> zeros.\<close>

definition new_Float64Array :: "nat \<Rightarrow> real list" where
  "new_Float64Array n = replicate n 0"

text \<open>
  A store into a typed array. A typed array never grows: a store past its end is dropped,
  which is what \<open>list_update\<close> does.
\<close>

definition typed_store :: "'a list \<Rightarrow> nat \<Rightarrow> 'a \<Rightarrow> 'a list" where
  "typed_store arr i v = arr[i := v]"

text \<open>The local variables the loop of \<open>createGeometryFromPositions\<close> updates.\<close>

record cgfp_state =
  flatPositions :: "real list"
  indexArray :: "nat list"
  positionIndex :: nat
  index :: nat

text \<open>One pass through the body of the loop, at loop counter \<open>i\<close>.\<close>

definition cgfp_body :: "cartesian3 list \<Rightarrow> nat \<Rightarrow> cgfp_state \<Rightarrow> cgfp_state" where
  "cgfp_body ps i st =
     (let len = length ps;
          p = ps ! i;
          fp1 = typed_store (flatPositions st) (positionIndex st) (cart_x p);
          fp2 = typed_store fp1 (positionIndex st + 1) (cart_y p);
          fp3 = typed_store fp2 (positionIndex st + 2) (cart_z p);
          ix1 = typed_store (indexArray st) (index st) i;
          ix2 = typed_store ix1 (index st + 1) ((i + 1) mod len)
      in \<lparr>flatPositions = fp3, indexArray = ix2,
          positionIndex = positionIndex st + 3, index = index st + 2\<rparr>)"

text \<open>\<open>for (var i = 0; i < length; i++) { ... }\<close>, entered at counter \<open>i\<close>.\<close>

function cgfp_loop :: "cartesian3 list \<Rightarrow> nat \<Rightarrow> cgfp_state \<Rightarrow> cgfp_state" where
  "cgfp_loop ps i st =
     (if i < length ps then cgfp_loop ps (i + 1) (cgfp_body ps i st) else st)"
  by pat_completeness auto
termination
  by (relation "measure (\<lambda>(ps, i, st). length ps - i)") auto

declare cgfp_loop.simps [simp del]

definition createGeometryFromPositions :: "cartesian3 list \<Rightarrow> 'b geometry" where
  "createGeometryFromPositions ps =
     (let len = length ps;
          st0 = \<lparr>flatPositions = new_Float64Array (len * 3),
                 indexArray = createTypedArray len (len * 2),
                 positionIndex = 0, index = 0\<rparr>;
          st = cgfp_loop ps 0 st0;
          attrs = \<lparr>position = \<lparr>componentDatatype = DOUBLE, componentsPerAttribute = 3,
                                attr_values = flatPositions st\<rparr>\<rparr>
      in \<lparr>attributes = attrs, indices = indexArray st, primitiveType = LINES,
          boundingSphere = None\<rparr>)"

text \<open>The buffers the loop is meant to fill, written without the loop.\<close>

definition flatten :: "cartesian3 list \<Rightarrow> real list" where
  "flatten ps = concat (map (\<lambda>p. [cart_x p, cart_y p, cart_z p]) ps)"

definition ring_edges :: "nat \<Rightarrow> nat list" where
  "ring_edges n = concat (map (\<lambda>i. [i, (i + 1) mod n]) [0..<n])"

text \<open>The loop invariant: after \<open>i\<close> rounds the first \<open>i\<close> points and edges are in place.\<close>

definition cgfp_inv :: "cartesian3 list \<Rightarrow> nat \<Rightarrow> cgfp_state \<Rightarrow> bool" where
  "cgfp_inv ps i st \<longleftrightarrow>
     positionIndex st = 3 * i \<and> index st = 2 * i \<and>
     length (flatPositions st) = 3 * length ps \<and>
     length (indexArray st) = 2 * length ps \<and>
     take (3 * i) (flatPositions st) = flatten (take i ps) \<and>
     take (2 * i) (indexArray st) = concat (map (\<lambda>k. [k, (k + 1) mod length ps]) [0..<i])"

definition edges_upto :: "nat \<Rightarrow> nat \<Rightarrow> nat list" where
  "edges_upto n m = concat (map (\<lambda>i. [i, (i + 1) mod n]) [0..<m])"

section \<open>JavaScript values, arrays and errors\<close>

text \<open>A cell of a numeric array: a number, or \<open>undefined\<close> where nothing was stored.\<close>

datatype jsvalue = Undefined | Number real

type_synonym jsarray = "jsvalue list"

text \<open>
  \<open>array[i]\<close> on a JavaScript array (\<open>Number[]\<close> in the documentation of \<open>pack\<close>):
  a read past the end yields \<open>undefined\<close>, a store past the end grows the array and
  leaves the cells in between empty.
\<close>

definition array_get :: "jsarray \<Rightarrow> nat \<Rightarrow> jsvalue" where
  "array_get arr i = (if i < length arr then arr ! i else Undefined)"

definition array_set :: "jsarray \<Rightarrow> nat \<Rightarrow> jsvalue \<Rightarrow> jsarray" where
  "array_set arr i v =
     (if i < length arr then arr[i := v]
      else arr @ replicate (i - length arr) Undefined @ [v])"

text \<open>
  \<open>DeveloperError\<close> is what a failed \<open>Check\<close> throws, \<open>TypeError\<close> what reading a
  property of \<open>undefined\<close> throws, \<open>MalformedBuffer\<close> stands for whatever happens when
  a hierarchy is read from cells that do not hold one.
\<close>

datatype error = DeveloperError string | TypeError | MalformedBuffer

text \<open>
  Modelled from the spec: \<open>when.defined\<close>, \<open>when.defaultValue\<close> and
  \<open>RuntimeError.Check.defined\<close> are not part of this file. An optional argument is
  "supplied" or not (section 4.5), a missing one takes its default (\<open>[startingIndex=0]\<close>
  in the documentation of \<open>pack\<close>), and a missing required argument "fails fast"
  (section 4.2). \<open>None\<close> is \<open>undefined\<close>.
\<close>

definition defined :: "'a option \<Rightarrow> bool" where
  "defined v = (case v of None \<Rightarrow> False | Some a \<Rightarrow> True)"

definition defaultValue :: "'a option \<Rightarrow> 'a \<Rightarrow> 'a" where
  "defaultValue a b = (case a of None \<Rightarrow> b | Some v \<Rightarrow> v)"

definition Check_defined :: "string \<Rightarrow> 'a option \<Rightarrow> error + 'a" where
  "Check_defined name v = (case v of None \<Rightarrow> Inl (DeveloperError name) | Some a \<Rightarrow> Inr a)"

section \<open>The packed form of a hierarchy\<close>

text \<open>
  Modelled from the spec: \<open>PolygonGeometryLibrary.computeHierarchyPackedLength\<close>,
  \<open>packPolygonHierarchy\<close>, \<open>unpackPolygonHierarchy\<close> and \<open>Cartesian3.pack\<close> /
  \<open>Cartesian3.unpack\<close> are not part of this file. Section 6 of the specification gives
  the wire format: "outer-ring point count, outer-ring coordinates (3 numbers per point),
  hole count, per-hole (point count + coordinates), recursively". The packed length is
  "the number of elements used to pack the object into an array".
\<close>

fun computeHierarchyPackedLength :: "hierarchy \<Rightarrow> nat" where
  "computeHierarchyPackedLength (Hierarchy ps hs) =
     2 + 3 * length ps + sum_list (map computeHierarchyPackedLength hs)"

definition Cartesian3_pack :: "cartesian3 \<Rightarrow> jsarray \<Rightarrow> nat \<Rightarrow> jsarray" where
  "Cartesian3_pack p arr i =
     array_set (array_set (array_set arr i (Number (cart_x p)))
                  (i + 1) (Number (cart_y p)))
       (i + 2) (Number (cart_z p))"

fun packPositions :: "cartesian3 list \<Rightarrow> jsarray \<Rightarrow> nat \<Rightarrow> jsarray \<times> nat" where
  "packPositions [] arr i = (arr, i)"
| "packPositions (p # ps) arr i = packPositions ps (Cartesian3_pack p arr i) (i + 3)"

text \<open>The array after the stores and the index after the last cell written.\<close>

fun packPolygonHierarchy :: "hierarchy \<Rightarrow> jsarray \<Rightarrow> nat \<Rightarrow> jsarray \<times> nat"
  and packHoles :: "hierarchy list \<Rightarrow> jsarray \<Rightarrow> nat \<Rightarrow> jsarray \<times> nat" where
  "packPolygonHierarchy (Hierarchy ps hs) arr i =
     (let arr1 = array_set arr i (Number (real (length ps)));
          (arr2, i2) = packPositions ps arr1 (i + 1);
          arr3 = array_set arr2 i2 (Number (real (length hs)))
      in packHoles hs arr3 (i2 + 1))"
| "packHoles [] arr i = (arr, i)"
| "packHoles (h # hs) arr i =
     (let (arr1, i1) = packPolygonHierarchy h arr i in packHoles hs arr1 i1)"

text \<open>A cell holds a count when it is a number that is a natural number.\<close>

definition read_count :: "jsarray \<Rightarrow> nat \<Rightarrow> nat option" where
  "read_count arr i =
     (case array_get arr i of
        Undefined \<Rightarrow> None
      | Number r \<Rightarrow> if 0 \<le> r \<and> real (nat \<lfloor>r\<rfloor>) = r then Some (nat \<lfloor>r\<rfloor>) else None)"

definition Cartesian3_unpack :: "jsarray \<Rightarrow> nat \<Rightarrow> cartesian3 option" where
  "Cartesian3_unpack arr i =
     (case array_get arr i of
        Undefined \<Rightarrow> None
      | Number a \<Rightarrow>
          (case array_get arr (i + 1) of
             Undefined \<Rightarrow> None
           | Number b \<Rightarrow>
               (case array_get arr (i + 2) of
                  Undefined \<Rightarrow> None
                | Number c \<Rightarrow> Some \<lparr>cart_x = a, cart_y = b, cart_z = c\<rparr>)))"

fun unpackPositions :: "nat \<Rightarrow> jsarray \<Rightarrow> nat \<Rightarrow> (cartesian3 list \<times> nat) option" where
  "unpackPositions 0 arr i = Some ([], i)"
| "unpackPositions (Suc n) arr i =
     (case Cartesian3_unpack arr i of
        None \<Rightarrow> None
      | Some p \<Rightarrow>
          (case unpackPositions n arr (i + 3) of
             None \<Rightarrow> None
           | Some (ps, j) \<Rightarrow> Some (p # ps, j)))"

text \<open>
  Reading a hierarchy back, nested at most \<open>d\<close> rings deep. The result is the hierarchy
  and the index after its last cell; \<open>None\<close> when the cells do not hold a hierarchy.
\<close>

fun unpackHierarchyWithin :: "nat \<Rightarrow> jsarray \<Rightarrow> nat \<Rightarrow> (hierarchy \<times> nat) option"
  and unpackHolesWithin :: "nat \<Rightarrow> nat \<Rightarrow> jsarray \<Rightarrow> nat \<Rightarrow> (hierarchy list \<times> nat) option" where
  "unpackHierarchyWithin 0 arr i = None"
| "unpackHierarchyWithin (Suc d) arr i =
     (case read_count arr i of
        None \<Rightarrow> None
      | Some n \<Rightarrow>
          (case unpackPositions n arr (i + 1) of
             None \<Rightarrow> None
           | Some (ps, j) \<Rightarrow>
               (case read_count arr j of
                  None \<Rightarrow> None
                | Some k \<Rightarrow>
                    (case unpackHolesWithin d k arr (j + 1) of
                       None \<Rightarrow> None
                     | Some (hs, j') \<Rightarrow> Some (Hierarchy ps hs, j')))))"
| "unpackHolesWithin d 0 arr i = Some ([], i)"
| "unpackHolesWithin d (Suc k) arr i =
     (case unpackHierarchyWithin d arr i of
        None \<Rightarrow> None
      | Some (h, j) \<Rightarrow>
          (case unpackHolesWithin d k arr j of
             None \<Rightarrow> None
           | Some (hs, j') \<Rightarrow> Some (h # hs, j')))"

text \<open>
  Every ring takes at least two cells, so a hierarchy stored in an array of \<open>n\<close> cells
  is nested less than \<open>n\<close> deep: the length of the array bounds the recursion.
\<close>

definition unpackPolygonHierarchy :: "jsarray \<Rightarrow> nat \<Rightarrow> (hierarchy \<times> nat) option" where
  "unpackPolygonHierarchy arr i = unpackHierarchyWithin (length arr) arr i"

text \<open>
  The wire format of section 6 as a list of numbers, and the array with a list of cells
  stored from an index on: what the stores of \<open>packPolygonHierarchy\<close> are compared with.
\<close>

fun hierarchy_encoding :: "hierarchy \<Rightarrow> real list" where
  "hierarchy_encoding (Hierarchy ps hs) =
     real (length ps) # flatten ps @ real (length hs) # concat (map hierarchy_encoding hs)"

fun write_cells :: "jsarray \<Rightarrow> nat \<Rightarrow> jsvalue list \<Rightarrow> jsarray" where
  "write_cells arr i [] = arr"
| "write_cells arr i (v # vs) = write_cells (array_set arr i v) (i + 1) vs"

definition holds_at :: "jsarray \<Rightarrow> nat \<Rightarrow> real list \<Rightarrow> bool" where
  "holds_at arr i xs \<longleftrightarrow> (\<forall>k < length xs. array_get arr (i + k) = Number (xs ! k))"

section \<open>The outline descriptor\<close>

text \<open>
  A property of an object that the constructor does not create: it is not there
  (\<open>NoProperty\<close>), or it is there and holds a value or \<open>undefined\<close>. Reading a property
  that is not there yields \<open>undefined\<close>.
\<close>

datatype 'e property = NoProperty | Property "'e option"

fun read_property :: "'e property \<Rightarrow> 'e option" where
  "read_property NoProperty = None"
| "read_property (Property v) = v"

text \<open>
  An instance of \<open>CoplanarPolygonOutlineGeometry\<close>: the properties \<open>_polygonHierarchy\<close>,
  \<open>_workerName\<close> and \<open>packedLength\<close> that the constructor sets, and \<open>_ellipsoid\<close>,
  which only the worker entry point stores. \<open>packedLength\<close> is a cell value, since
  \<open>unpack\<close> copies it from the array as it is.
\<close>

record 'e descriptor =
  priv_polygonHierarchy :: hierarchy
  priv_workerName :: string
  packedLength :: jsvalue
  priv_ellipsoid :: "'e property"

text \<open>
  The options object of the constructor and of \<open>fromPositions\<close>: the two properties the
  module reads, each possibly undefined. \<open>EMPTY_OBJECT\<close> has neither.
\<close>

record options =
  polygonHierarchy :: "hierarchy option"
  opt_positions :: "cartesian3 list option"

definition EMPTY_OBJECT :: options where
  "EMPTY_OBJECT = \<lparr>polygonHierarchy = None, opt_positions = None\<rparr>"

definition CoplanarPolygonOutlineGeometry :: "options option \<Rightarrow> error + 'e descriptor" where
  "CoplanarPolygonOutlineGeometry opts =
     (let opts1 = defaultValue opts EMPTY_OBJECT;
          ph = polygonHierarchy opts1
      in case Check_defined ''options.polygonHierarchy'' ph of
           Inl e \<Rightarrow> Inl e
         | Inr h \<Rightarrow>
             Inr \<lparr>priv_polygonHierarchy = h,
                  priv_workerName = ''createCoplanarPolygonOutlineGeometry'',
                  packedLength = Number (real (computeHierarchyPackedLength h + 1)),
                  priv_ellipsoid = NoProperty\<rparr>)"

definition fromPositions :: "options option \<Rightarrow> error + 'e descriptor" where
  "fromPositions opts =
     (let opts1 = defaultValue opts EMPTY_OBJECT
      in case Check_defined ''options.positions'' (opt_positions opts1) of
           Inl e \<Rightarrow> Inl e
         | Inr ps \<Rightarrow>
             (let newOptions = \<lparr>polygonHierarchy = Some (Hierarchy ps []),
                                opt_positions = None\<rparr>
              in CoplanarPolygonOutlineGeometry (Some newOptions)))"

text \<open>
  \<open>pack\<close>: the two checks on \<open>value\<close> and \<open>array\<close> pass, both being there. The array is
  updated in place and returned; the model returns the array after the stores.
\<close>

definition pack :: "'e descriptor \<Rightarrow> jsarray \<Rightarrow> nat option \<Rightarrow> jsarray" where
  "pack v arr startingIndex =
     (let i0 = defaultValue startingIndex 0;
          (arr1, i1) = packPolygonHierarchy (priv_polygonHierarchy v) arr i0
      in array_set arr1 i1 (packedLength v))"

text \<open>
  \<open>scratchOptions = {polygonHierarchy: {}}\<close>, and \<open>unpack\<close>: the check on \<open>array\<close>
  passes, the array being there. \<open>result\<close> is \<open>None\<close> when no result object is given; a
  result object given is the one returned, with the two properties stored in it.
\<close>

definition scratchOptions :: options where
  "scratchOptions = \<lparr>polygonHierarchy = Some (Hierarchy [] []), opt_positions = None\<rparr>"

definition unpack ::
  "jsarray \<Rightarrow> nat option \<Rightarrow> 'e descriptor option \<Rightarrow> error + 'e descriptor" where
  "unpack arr startingIndex result =
     (let i0 = defaultValue startingIndex 0
      in case unpackPolygonHierarchy arr i0 of
           None \<Rightarrow> Inl MalformedBuffer
         | Some (ph, i1) \<Rightarrow>
             (let pl = array_get arr i1
              in case (case result of
                         None \<Rightarrow> CoplanarPolygonOutlineGeometry (Some scratchOptions)
                       | Some r \<Rightarrow> Inr r) of
                   Inl e \<Rightarrow> Inl e
                 | Inr r \<Rightarrow> Inr (r\<lparr>priv_polygonHierarchy := ph, packedLength := pl\<rparr>)))"

section \<open>createGeometry and the worker entry point\<close>

text \<open>
  The routines of other modules that \<open>createGeometry\<close> and the entry point call are not
  part of this file. They are parameters of the model: each is taken as the function from
  its arguments to the value it returns.
\<close>

record ('b, 'e) library =
  arrayRemoveDuplicates ::
    "cartesian3 list \<Rightarrow> (cartesian3 \<Rightarrow> cartesian3 \<Rightarrow> bool) \<Rightarrow> bool \<Rightarrow> cartesian3 list"
  equalsEpsilon :: "cartesian3 \<Rightarrow> cartesian3 \<Rightarrow> bool"
  validOutline :: "cartesian3 list \<Rightarrow> bool"
  polygonOutlinesFromHierarchy :: "hierarchy \<Rightarrow> bool \<Rightarrow> cartesian3 list list"
  combineInstances :: "'b geometryInstance list \<Rightarrow> 'b geometry list"
  fromPoints :: "cartesian3 list \<Rightarrow> 'b"
  Ellipsoid_clone :: "'e option \<Rightarrow> 'e option"

text \<open>
  \<open>createGeometry\<close> returns the descriptor as the call leaves it, and the result:
  \<open>Inr None\<close> is a return of \<open>undefined\<close>, \<open>Inr (Some g)\<close> a geometry. Element 0 of an
  empty array is \<open>undefined\<close>, and reading \<open>attributes\<close> of it throws a \<open>TypeError\<close>.
\<close>

definition createGeometry ::
  "('b, 'e) library \<Rightarrow> 'e descriptor \<Rightarrow> 'e descriptor \<times> (error + 'b geometry option)" where
  "createGeometry L polygonGeometry =
     (let ph = priv_polygonHierarchy polygonGeometry;
          outerPositions0 = positions ph;
          outerPositions = arrayRemoveDuplicates L outerPositions0 (equalsEpsilon L) True
      in if length outerPositions < 3 then (polygonGeometry, Inr None)
         else
           (let isValid = validOutline L outerPositions
            in if \<not> isValid then (polygonGeometry, Inr None)
               else
                 (let polygons = polygonOutlinesFromHierarchy L ph False
                  in if length polygons = 0 then (polygonGeometry, Inr None)
                     else
                       (let geometries =
                              map (\<lambda>p. \<lparr>geometry = createGeometryFromPositions p\<rparr>) polygons
                        in case combineInstances L geometries of
                             [] \<Rightarrow> (polygonGeometry, Inl TypeError)
                           | g # rest \<Rightarrow>
                               (let bs = fromPoints L (positions ph)
                                in (polygonGeometry,
                                    Inr (Some \<lparr>attributes = attributes g,
                                               indices = indices g,
                                               primitiveType = primitiveType g,
                                               boundingSphere = Some bs\<rparr>)))))))"

text \<open>
  The first argument of the entry point: the packed array when an offset comes with it,
  the descriptor itself otherwise. A descriptor has no numbered cells, so read as an
  array it is the empty one. A packed array has no \<open>_polygonHierarchy\<close>: handed to
  \<open>createGeometry\<close> as it is, reading \<open>positions\<close> of \<open>undefined\<close> throws.
\<close>

datatype 'e worker_arg = PackedArray jsarray | Instance "'e descriptor"

fun cells_of :: "'e worker_arg \<Rightarrow> jsarray" where
  "cells_of (PackedArray arr) = arr"
| "cells_of (Instance d) = []"

text \<open>\<open>polygonGeometry._ellipsoid = Ellipsoid.clone(polygonGeometry._ellipsoid)\<close>.\<close>

definition store_ellipsoid :: "('b, 'e) library \<Rightarrow> 'e descriptor \<Rightarrow> 'e descriptor" where
  "store_ellipsoid L d =
     d\<lparr>priv_ellipsoid := Property (Ellipsoid_clone L (read_property (priv_ellipsoid d)))\<rparr>"

text \<open>
  The entry point returns its first argument as the call leaves it, and the result. With
  an offset the local variable is rebound to the unpacked descriptor, and the argument
  itself is not touched.
\<close>

definition createCoplanarPolygonOutlineGeometry ::
  "('b, 'e) library \<Rightarrow> 'e worker_arg \<Rightarrow> nat option \<Rightarrow>
     'e worker_arg \<times> (error + 'b geometry option)" where
  "createCoplanarPolygonOutlineGeometry L polygonGeometry offset =
     (if defined offset then
        (case unpack (cells_of polygonGeometry) offset None of
           Inl e \<Rightarrow> (polygonGeometry, Inl e)
         | Inr d \<Rightarrow> (polygonGeometry, snd (createGeometry L (store_ellipsoid L d))))
      else
        (case polygonGeometry of
           PackedArray arr \<Rightarrow> (polygonGeometry, Inl TypeError)
         | Instance d \<Rightarrow>
             (let (d', r) = createGeometry L (store_ellipsoid L d) in (Instance d', r))))"

text \<open>
  The dispatcher as section 4.5 of the specification words it: "if an offset is supplied,
  first unpack the descriptor from a shared buffer at that offset; then run
  [createGeometry]", and nothing else.
\<close>

definition thin_dispatcher ::
  "('b, 'e) library \<Rightarrow> 'e worker_arg \<Rightarrow> nat option \<Rightarrow>
     'e worker_arg \<times> (error + 'b geometry option)" where
  "thin_dispatcher L polygonGeometry offset =
     (if defined offset then
        (case unpack (cells_of polygonGeometry) offset None of
           Inl e \<Rightarrow> (polygonGeometry, Inl e)
         | Inr d \<Rightarrow> (polygonGeometry, snd (createGeometry L d)))
      else
        (case polygonGeometry of
           PackedArray arr \<Rightarrow> (polygonGeometry, Inl TypeError)
         | Instance d \<Rightarrow> (let (d', r) = createGeometry L d in (Instance d', r))))"

text \<open>
  \<open>createGeometry\<close> hands the routines the hierarchy object (line 249) and its positions
  array (lines 240 and 265) themselves, not copies, and \<open>validOutline\<close> may be handed that
  same array back from \<open>arrayRemoveDuplicates\<close>. A routine that stores into what it is
  handed changes the hierarchy of the descriptor. To speak of that, the routines are taken
  a second time, now with the hierarchy as it is in memory: each returns its value and
  the hierarchy as it leaves it. Nothing the routines are handed refers to the descriptor
  itself.
\<close>

record 'b writing_library =
  arrayRemoveDuplicates_w ::
    "cartesian3 list \<Rightarrow> (cartesian3 \<Rightarrow> cartesian3 \<Rightarrow> bool) \<Rightarrow> bool \<Rightarrow> hierarchy \<Rightarrow>
       cartesian3 list \<times> hierarchy"
  equalsEpsilon_w :: "cartesian3 \<Rightarrow> cartesian3 \<Rightarrow> bool"
  validOutline_w :: "cartesian3 list \<Rightarrow> hierarchy \<Rightarrow> bool \<times> hierarchy"
  polygonOutlinesFromHierarchy_w :: "bool \<Rightarrow> hierarchy \<Rightarrow> cartesian3 list list \<times> hierarchy"
  combineInstances_w ::
    "'b geometryInstance list \<Rightarrow> hierarchy \<Rightarrow> 'b geometry list \<times> hierarchy"
  fromPoints_w :: "cartesian3 list \<Rightarrow> hierarchy \<Rightarrow> 'b \<times> hierarchy"

text \<open>
  \<open>createGeometry\<close> once more, statement by statement, with the hierarchy in memory
  passed from call to call. Every read of \<open>polygonHierarchy\<close> or of its \<open>positions\<close>
  sees the hierarchy as the calls before have left it; the descriptor returned holds the
  hierarchy as the last call has left it. \<open>geometry.attributes\<close> is read after
  \<open>fromPoints\<close> has run.
\<close>

definition createGeometry_st ::
  "'b writing_library \<Rightarrow> 'e descriptor \<Rightarrow> 'e descriptor \<times> (error + 'b geometry option)" where
  "createGeometry_st W polygonGeometry =
     (let ph0 = priv_polygonHierarchy polygonGeometry;
          (outerPositions, ph1) =
             arrayRemoveDuplicates_w W (positions ph0) (equalsEpsilon_w W) True ph0
      in if length outerPositions < 3
         then (polygonGeometry\<lparr>priv_polygonHierarchy := ph1\<rparr>, Inr None)
         else
           (let (isValid, ph2) = validOutline_w W outerPositions ph1
            in if \<not> isValid then (polygonGeometry\<lparr>priv_polygonHierarchy := ph2\<rparr>, Inr None)
               else
                 (let (polygons, ph3) = polygonOutlinesFromHierarchy_w W False ph2
                  in if length polygons = 0
                     then (polygonGeometry\<lparr>priv_polygonHierarchy := ph3\<rparr>, Inr None)
                     else
                       (let geometries =
                              map (\<lambda>p. \<lparr>geometry = createGeometryFromPositions p\<rparr>) polygons;
                            (combined, ph4) = combineInstances_w W geometries ph3;
                            (bs, ph5) = fromPoints_w W (positions ph4) ph4
                        in case combined of
                             [] \<Rightarrow> (polygonGeometry\<lparr>priv_polygonHierarchy := ph5\<rparr>, Inl TypeError)
                           | g # rest \<Rightarrow>
                               (polygonGeometry\<lparr>priv_polygonHierarchy := ph5\<rparr>,
                                Inr (Some \<lparr>attributes = attributes g,
                                           indices = indices g,
                                           primitiveType = primitiveType g,
                                           boundingSphere = Some bs\<rparr>))))))"

text \<open>The routines that leave the hierarchy in memory as they find it.\<close>

definition keeps_hierarchy :: "'b writing_library \<Rightarrow> bool" where
  "keeps_hierarchy W \<longleftrightarrow>
     (\<forall>vs eq w s. snd (arrayRemoveDuplicates_w W vs eq w s) = s) \<and>
     (\<forall>ps s. snd (validOutline_w W ps s) = s) \<and>
     (\<forall>b s. snd (polygonOutlinesFromHierarchy_w W b s) = s) \<and>
     (\<forall>gs s. snd (combineInstances_w W gs s) = s) \<and>
     (\<forall>ps s. snd (fromPoints_w W ps s) = s)"

text \<open>A library of functions, as routines that only read the hierarchy in memory.\<close>

definition writing_of :: "('b, 'e) library \<Rightarrow> 'b writing_library" where
  "writing_of L =
     \<lparr>arrayRemoveDuplicates_w = (\<lambda>vs eq w s. (arrayRemoveDuplicates L vs eq w, s)),
      equalsEpsilon_w = equalsEpsilon L,
      validOutline_w = (\<lambda>ps s. (validOutline L ps, s)),
      polygonOutlinesFromHierarchy_w = (\<lambda>b s. (polygonOutlinesFromHierarchy L s b, s)),
      combineInstances_w = (\<lambda>gs s. (combineInstances L gs, s)),
      fromPoints_w = (\<lambda>ps s. (fromPoints L ps, s))\<rparr>"

text \<open>The three ways of section 4.4 in which an input has no outline to draw.\<close>

definition degenerate :: "('b, 'e) library \<Rightarrow> 'e descriptor \<Rightarrow> bool" where
  "degenerate L d \<longleftrightarrow>
     (let ph = priv_polygonHierarchy d;
          deduplicated = arrayRemoveDuplicates L (positions ph) (equalsEpsilon L) True
      in length deduplicated < 3 \<or> \<not> validOutline L deduplicated \<or>
         polygonOutlinesFromHierarchy L ph False = [])"

text \<open>
  What a claim that a call changes an array only inside the cells \<open>lo \<le> j < hi\<close> says:
  every other cell reads the same before and after.
\<close>

definition changes_only_within :: "jsarray \<Rightarrow> jsarray \<Rightarrow> nat \<Rightarrow> nat \<Rightarrow> bool" where
  "changes_only_within before after lo hi \<longleftrightarrow>
     (\<forall>j. j < lo \<or> hi \<le> j \<longrightarrow> array_get after j = array_get before j)"

section \<open>An instance of the library and sample polygons\<close>

text \<open>
  Modelled from the spec: one library to run the module on concrete polygons. It follows
  section 4.4: duplicates are consecutive equal points, "treating the ring as cyclic"; the
  outlines of a hierarchy are its outer ring and the rings of its holes; the rings are
  combined "into a single merged geometry (concatenated buffers, indices offset per
  ring)". Equality is exact, every outline counts as valid, the bounding sphere of a list
  of points is stood for by the list itself, and a clone is the value cloned.
\<close>

fun drop_adjacent :: "(cartesian3 \<Rightarrow> cartesian3 \<Rightarrow> bool) \<Rightarrow> cartesian3 list \<Rightarrow> cartesian3 list" where
  "drop_adjacent eq [] = []"
| "drop_adjacent eq [p] = [p]"
| "drop_adjacent eq (p # q # ps) =
     (if eq p q then drop_adjacent eq (q # ps) else p # drop_adjacent eq (q # ps))"

definition remove_duplicates ::
  "cartesian3 list \<Rightarrow> (cartesian3 \<Rightarrow> cartesian3 \<Rightarrow> bool) \<Rightarrow> bool \<Rightarrow> cartesian3 list" where
  "remove_duplicates vs eq wrapAround =
     (let cleaned = drop_adjacent eq vs
      in case cleaned of
           [] \<Rightarrow> []
         | p # rest \<Rightarrow>
             if wrapAround \<and> rest \<noteq> [] \<and> eq p (last cleaned) then rest else cleaned)"

fun outline_rings :: "hierarchy \<Rightarrow> cartesian3 list list" where
  "outline_rings (Hierarchy ps hs) = ps # concat (map outline_rings hs)"

fun offset_indices :: "nat \<Rightarrow> 'b geometryInstance list \<Rightarrow> nat list" where
  "offset_indices off [] = []"
| "offset_indices off (g # gs) =
     map (\<lambda>i. off + i) (indices (geometry g)) @
     offset_indices (off + length (attr_values (position (attributes (geometry g)))) div 3) gs"

definition merge_instances :: "'b geometryInstance list \<Rightarrow> 'b geometry list" where
  "merge_instances gs =
     (case gs of
        [] \<Rightarrow> []
      | g # rest \<Rightarrow>
          [\<lparr>attributes =
              \<lparr>position =
                 \<lparr>componentDatatype = DOUBLE, componentsPerAttribute = 3,
                  attr_values =
                    concat (map (\<lambda>g. attr_values (position (attributes (geometry g)))) gs)\<rparr>\<rparr>,
            indices = offset_indices 0 gs,
            primitiveType = primitiveType (geometry g),
            boundingSphere = None\<rparr>])"

definition sample_library :: "(cartesian3 list, unit) library" where
  "sample_library =
     \<lparr>arrayRemoveDuplicates = remove_duplicates,
      equalsEpsilon = (\<lambda>p q. p = q),
      validOutline = (\<lambda>ps. True),
      polygonOutlinesFromHierarchy = (\<lambda>h scaleToEllipsoid. outline_rings h),
      combineInstances = merge_instances,
      fromPoints = (\<lambda>ps. ps),
      Ellipsoid_clone = (\<lambda>e. e)\<rparr>"

text \<open>
  The same library, but with a deduplication in place: the cleaned points are stored back
  into the array the routine was handed, which is the outer ring of the hierarchy.
\<close>

definition in_place_library :: "cartesian3 list writing_library" where
  "in_place_library =
     (writing_of sample_library)
       \<lparr>arrayRemoveDuplicates_w :=
          (\<lambda>vs eq w s. (remove_duplicates vs eq w,
                        Hierarchy (remove_duplicates vs eq w) (holes s)))\<rparr>"

definition point :: "real \<Rightarrow> real \<Rightarrow> real \<Rightarrow> cartesian3" where
  "point a b c = \<lparr>cart_x = a, cart_y = b, cart_z = c\<rparr>"

text \<open>The rectangle of section 8 of the specification, and the same with a corner twice.\<close>

definition rectangle :: "cartesian3 list" where
  "rectangle = [point 0 0 0, point 0 0 1, point 1 0 1, point 1 0 0]"

definition rectangle_twice :: "cartesian3 list" where
  "rectangle_twice = [point 0 0 0, point 0 0 0, point 0 0 1, point 1 0 1, point 1 0 0]"

text \<open>A triangle with two holes, the second with a hole of its own.\<close>

definition nested_hierarchy :: hierarchy where
  "nested_hierarchy =
     Hierarchy [point 0 0 0, point 9 0 0, point 0 0 9]
       [Hierarchy [point 1 0 1, point 2 0 1, point 1 0 2] [],
        Hierarchy [point 4 0 1, point 6 0 1, point 4 0 3]
          [Hierarchy [point 5 0 1, point 5 0 2, point 4 0 2] []]]"

definition descriptor_of :: "hierarchy \<Rightarrow> jsvalue \<Rightarrow> unit descriptor" where
  "descriptor_of h n =
     \<lparr>priv_polygonHierarchy = h,
      priv_workerName = ''createCoplanarPolygonOutlineGeometry'',
      packedLength = n, priv_ellipsoid = NoProperty\<rparr>"

section \<open>The loop of createGeometryFromPositions\<close>

lemma take_Suc_update:
  "n < length xs \<Longrightarrow> take (Suc n) (xs[n := v]) = take n xs @ [v]"
  by (simp add: take_Suc_conv_app_nth)

lemma take3_update:
  assumes "n + 2 < length xs"
  shows "take (n + 3) (xs[n := a, n + 1 := b, n + 2 := c]) = take n xs @ [a, b, c]"
proof -
  have "take (Suc (Suc (Suc n))) (xs[n := a, Suc n := b, Suc (Suc n) := c])
        = take (Suc (Suc n)) (xs[n := a, Suc n := b]) @ [c]"
    using assms by (simp add: take_Suc_update)
  also have "take (Suc (Suc n)) (xs[n := a, Suc n := b]) = take (Suc n) (xs[n := a]) @ [b]"
    using assms by (simp add: take_Suc_update)
  also have "take (Suc n) (xs[n := a]) = take n xs @ [a]"
    using assms by (simp add: take_Suc_update)
  finally show ?thesis by (simp add: numeral_3_eq_3)
qed

lemma take2_update:
  assumes "n + 1 < length xs"
  shows "take (n + 2) (xs[n := a, n + 1 := b]) = take n xs @ [a, b]"
proof -
  have "take (Suc (Suc n)) (xs[n := a, Suc n := b]) = take (Suc n) (xs[n := a]) @ [b]"
    using assms by (simp add: take_Suc_update)
  also have "take (Suc n) (xs[n := a]) = take n xs @ [a]"
    using assms by (simp add: take_Suc_update)
  finally show ?thesis by simp
qed

lemma flatten_snoc: "flatten (xs @ [p]) = flatten xs @ [cart_x p, cart_y p, cart_z p]"
  by (simp add: flatten_def)

lemma cgfp_body_fields:
  "flatPositions (cgfp_body ps i st) =
     (flatPositions st)[positionIndex st := cart_x (ps ! i),
        positionIndex st + 1 := cart_y (ps ! i), positionIndex st + 2 := cart_z (ps ! i)]"
  "indexArray (cgfp_body ps i st) =
     (indexArray st)[index st := i, index st + 1 := (i + 1) mod length ps]"
  "positionIndex (cgfp_body ps i st) = positionIndex st + 3"
  "index (cgfp_body ps i st) = index st + 2"
  by (simp_all add: cgfp_body_def Let_def typed_store_def)

lemma cgfp_body_inv:
  assumes "cgfp_inv ps i st" and "i < length ps"
  shows "cgfp_inv ps (i + 1) (cgfp_body ps i st)"
proof -
  from assms have pi: "positionIndex st = 3 * i" and ix: "index st = 2 * i"
    and l1: "length (flatPositions st) = 3 * length ps"
    and l2: "length (indexArray st) = 2 * length ps"
    and t1: "take (3 * i) (flatPositions st) = flatten (take i ps)"
    and t2: "take (2 * i) (indexArray st) = concat (map (\<lambda>k. [k, (k + 1) mod length ps]) [0..<i])"
    by (simp_all add: cgfp_inv_def)
  have b1: "3 * i + 2 < length (flatPositions st)" using assms(2) l1 by simp
  have b2: "2 * i + 1 < length (indexArray st)" using assms(2) l2 by simp
  have tk: "take (i + 1) ps = take i ps @ [ps ! i]"
    using assms(2) by (simp add: take_Suc_conv_app_nth)
  have f: "take (3 * i + 3) (flatPositions (cgfp_body ps i st)) = flatten (take (i + 1) ps)"
    unfolding cgfp_body_fields pi take3_update[OF b1] t1 tk flatten_snoc ..
  have up: "[0..<i + 1] = [0..<i] @ [i]" by simp
  have g: "take (2 * i + 2) (indexArray (cgfp_body ps i st))
           = concat (map (\<lambda>k. [k, (k + 1) mod length ps]) [0..<i + 1])"
    unfolding cgfp_body_fields ix take2_update[OF b2] t2 up by simp
  have e1: "3 * (i + 1) = 3 * i + 3" and e2: "2 * (i + 1) = 2 * i + 2" by simp_all
  have "positionIndex (cgfp_body ps i st) = 3 * i + 3"
    and "index (cgfp_body ps i st) = 2 * i + 2"
    and "length (flatPositions (cgfp_body ps i st)) = 3 * length ps"
    and "length (indexArray (cgfp_body ps i st)) = 2 * length ps"
    using pi ix l1 l2 by (simp_all add: cgfp_body_fields)
  then show ?thesis
    unfolding cgfp_inv_def e1 e2 using f g by blast
qed

lemma cgfp_loop_inv:
  "cgfp_inv ps i st \<Longrightarrow> i \<le> length ps \<Longrightarrow> cgfp_inv ps (length ps) (cgfp_loop ps i st)"
proof (induction ps i st rule: cgfp_loop.induct)
  case (1 ps i st)
  show ?case
  proof (cases "i < length ps")
    case True
    then have "cgfp_inv ps (i + 1) (cgfp_body ps i st)" using 1(2) cgfp_body_inv by blast
    then have "cgfp_inv ps (length ps) (cgfp_loop ps (i + 1) (cgfp_body ps i st))"
      using 1(1) True by simp
    then show ?thesis using True by (subst cgfp_loop.simps) simp
  next
    case False
    then have "i = length ps" using 1(3) by simp
    then show ?thesis using 1(2) by (subst cgfp_loop.simps) simp
  qed
qed

lemma cgfp_inv_init:
  "cgfp_inv ps 0 \<lparr>flatPositions = new_Float64Array (length ps * 3),
                 indexArray = createTypedArray (length ps) (length ps * 2),
                 positionIndex = 0, index = 0\<rparr>"
  by (simp add: cgfp_inv_def new_Float64Array_def createTypedArray_def flatten_def)

lemma cgfp_loop_result:
  defines "st0 \<equiv> \<lambda>ps. \<lparr>flatPositions = new_Float64Array (length ps * 3),
                 indexArray = createTypedArray (length ps) (length ps * 2),
                 positionIndex = 0, index = 0\<rparr>"
  shows "flatPositions (cgfp_loop ps 0 (st0 ps)) = flatten ps"
    and "indexArray (cgfp_loop ps 0 (st0 ps)) = ring_edges (length ps)"
proof -
  let ?st = "cgfp_loop ps 0 (st0 ps)"
  have inv: "cgfp_inv ps (length ps) ?st"
    unfolding st0_def by (rule cgfp_loop_inv[OF cgfp_inv_init]) simp
  then have l1: "length (flatPositions ?st) = 3 * length ps"
    and l2: "length (indexArray ?st) = 2 * length ps"
    and t1: "take (3 * length ps) (flatPositions ?st) = flatten ps"
    and t2: "take (2 * length ps) (indexArray ?st) = ring_edges (length ps)"
    by (simp_all add: cgfp_inv_def ring_edges_def)
  have "take (length (flatPositions ?st)) (flatPositions ?st) = flatPositions ?st"
    by (rule take_all) simp
  with l1 t1 show "flatPositions ?st = flatten ps" by simp
  have "take (length (indexArray ?st)) (indexArray ?st) = indexArray ?st"
    by (rule take_all) simp
  with l2 t2 show "indexArray ?st = ring_edges (length ps)" by simp
qed

lemma createGeometryFromPositions_eq:
  "createGeometryFromPositions ps =
     \<lparr>attributes = \<lparr>position = \<lparr>componentDatatype = DOUBLE, componentsPerAttribute = 3,
                                attr_values = flatten ps\<rparr>\<rparr>,
      indices = ring_edges (length ps), primitiveType = LINES, boundingSphere = None\<rparr>"
  by (simp add: createGeometryFromPositions_def Let_def cgfp_loop_result)


lemma length_edges_upto: "length (edges_upto n m) = 2 * m"
  by (induction m) (simp_all add: edges_upto_def)

lemma edges_upto_nth:
  "i < m \<Longrightarrow> edges_upto n m ! (2 * i) = i \<and> edges_upto n m ! (2 * i + 1) = (i + 1) mod n"
proof (induction m)
  case 0
  then show ?case by simp
next
  case (Suc m)
  have step: "edges_upto n (Suc m) = edges_upto n m @ [m, (m + 1) mod n]"
    by (simp add: edges_upto_def)
  show ?case
  proof (cases "i < m")
    case True
    then have "2 * i < length (edges_upto n m)" "2 * i + 1 < length (edges_upto n m)"
      by (simp_all add: length_edges_upto)
    then show ?thesis using Suc.IH[OF True] by (simp add: step nth_append)
  next
    case False
    then have "i = m" using Suc.prems by simp
    then show ?thesis by (simp add: step nth_append length_edges_upto)
  qed
qed

lemma ring_edges_nth:
  "i < n \<Longrightarrow> ring_edges n ! (2 * i) = i \<and> ring_edges n ! (2 * i + 1) = (i + 1) mod n"
  using edges_upto_nth[of i n n] by (simp add: edges_upto_def ring_edges_def)

lemma length_ring_edges: "length (ring_edges n) = 2 * n"
  using length_edges_upto[of n n] by (simp add: edges_upto_def ring_edges_def)

lemma length_flatten: "length (flatten ps) = 3 * length ps"
  by (induction ps) (simp_all add: flatten_def)

lemma flatten_Cons: "flatten (p # ps) = cart_x p # cart_y p # cart_z p # flatten ps"
  by (simp add: flatten_def)

lemma flatten_nth:
  "i < length ps \<Longrightarrow>
     flatten ps ! (3 * i) = cart_x (ps ! i) \<and>
     flatten ps ! (3 * i + 1) = cart_y (ps ! i) \<and>
     flatten ps ! (3 * i + 2) = cart_z (ps ! i)"
proof (induction ps arbitrary: i)
  case Nil
  then show ?case by simp
next
  case (Cons p ps)
  show ?case
  proof (cases i)
    case 0
    then show ?thesis by (simp add: flatten_Cons)
  next
    case (Suc j)
    then have "j < length ps" using Cons.prems by simp
    from Cons.IH[OF this] show ?thesis
      by (simp add: flatten_Cons Suc numeral_3_eq_3 numeral_2_eq_2)
  qed
qed

section \<open>Stores into an array and the packed form\<close>

lemma array_get_set:
  "array_get (array_set arr i v) j = (if j = i then v else array_get arr j)"
  by (auto simp: array_get_def array_set_def nth_append)

lemma length_array_set: "length (array_set arr i v) = max (length arr) (Suc i)"
  by (auto simp: array_set_def)

lemma write_cells_append:
  "write_cells arr i (xs @ ys) = write_cells (write_cells arr i xs) (i + length xs) ys"
  by (induction xs arbitrary: arr i) simp_all

lemma array_get_write_cells:
  "array_get (write_cells arr i xs) j =
     (if i \<le> j \<and> j < i + length xs then xs ! (j - i) else array_get arr j)"
proof (induction xs arbitrary: arr i)
  case Nil
  then show ?case by auto
next
  case (Cons v vs)
  have "array_get (write_cells arr i (v # vs)) j =
          (if Suc i \<le> j \<and> j < Suc i + length vs then vs ! (j - Suc i)
           else array_get (array_set arr i v) j)"
    by (simp add: Cons.IH)
  also have "\<dots> = (if i \<le> j \<and> j < i + length (v # vs) then (v # vs) ! (j - i)
                    else array_get arr j)"
    by (auto simp: array_get_set nth_Cons' Suc_diff_Suc not_less_eq_eq)
  finally show ?case .
qed

lemma length_write_cells:
  "length (write_cells arr i xs) = (if xs = [] then length arr else max (length arr) (i + length xs))"
  by (induction xs arbitrary: arr i) (auto simp: length_array_set)



lemma packPositions_eq:
  "packPositions ps arr i = (write_cells arr i (map Number (flatten ps)), i + 3 * length ps)"
  by (induction ps arbitrary: arr i)
     (simp_all add: flatten_def Cartesian3_pack_def numeral_3_eq_3 numeral_2_eq_2)

lemma length_hierarchy_encoding:
  "length (hierarchy_encoding h) = computeHierarchyPackedLength h"
proof (induction h)
  case (Hierarchy ps hs)
  have "length (concat (map hierarchy_encoding hs)) = sum_list (map computeHierarchyPackedLength hs)"
    using Hierarchy by (induction hs) simp_all
  then show ?case by (simp add: length_flatten)
qed

lemma packHoles_eq_if:
  assumes "\<And>h arr i. h \<in> set hs \<Longrightarrow>
             packPolygonHierarchy h arr i =
               (write_cells arr i (map Number (hierarchy_encoding h)),
                i + computeHierarchyPackedLength h)"
  shows "packHoles hs arr i =
     (write_cells arr i (map Number (concat (map hierarchy_encoding hs))),
      i + sum_list (map computeHierarchyPackedLength hs))"
  using assms
proof (induction hs arbitrary: arr i)
  case Nil
  show ?case by simp
next
  case (Cons h hs)
  have h: "packPolygonHierarchy h arr i =
             (write_cells arr i (map Number (hierarchy_encoding h)),
              i + computeHierarchyPackedLength h)"
    by (rule Cons.prems) simp
  have rest: "packHoles hs arr' i' =
     (write_cells arr' i' (map Number (concat (map hierarchy_encoding hs))),
      i' + sum_list (map computeHierarchyPackedLength hs))" for arr' i'
    by (rule Cons.IH) (simp add: Cons.prems)
  show ?case
    by (simp add: h rest write_cells_append length_hierarchy_encoding add.assoc)
qed

lemma packPolygonHierarchy_eq:
  "packPolygonHierarchy h arr i =
     (write_cells arr i (map Number (hierarchy_encoding h)),
      i + computeHierarchyPackedLength h)"
proof (induction h arbitrary: arr i)
  case (Hierarchy ps hs)
  have holes: "packHoles hs arr' i' =
     (write_cells arr' i' (map Number (concat (map hierarchy_encoding hs))),
      i' + sum_list (map computeHierarchyPackedLength hs))" for arr' i'
    by (rule packHoles_eq_if) (rule Hierarchy.IH)
  show ?case
    by (simp add: packPositions_eq holes write_cells_append length_flatten)
qed

section \<open>Reading the packed form back\<close>

lemma holds_at_Nil: "holds_at arr i []"
  by (simp add: holds_at_def)

lemma holds_at_Cons:
  "holds_at arr i (x # xs) \<longleftrightarrow> array_get arr i = Number x \<and> holds_at arr (Suc i) xs"
proof
  assume h: "holds_at arr i (x # xs)"
  then have "array_get arr (i + 0) = Number ((x # xs) ! 0)"
    unfolding holds_at_def by (metis length_greater_0_conv list.distinct(1))
  moreover have "holds_at arr (Suc i) xs"
    unfolding holds_at_def
  proof (intro allI impI)
    fix k assume "k < length xs"
    then have "Suc k < length (x # xs)" by simp
    with h have "array_get arr (i + Suc k) = Number ((x # xs) ! Suc k)"
      unfolding holds_at_def by blast
    then show "array_get arr (Suc i + k) = Number (xs ! k)" by simp
  qed
  ultimately show "array_get arr i = Number x \<and> holds_at arr (Suc i) xs" by simp
next
  assume h: "array_get arr i = Number x \<and> holds_at arr (Suc i) xs"
  show "holds_at arr i (x # xs)"
    unfolding holds_at_def
  proof (intro allI impI)
    fix k assume "k < length (x # xs)"
    then show "array_get arr (i + k) = Number ((x # xs) ! k)"
      using h by (cases k) (simp_all add: holds_at_def)
  qed
qed

lemma holds_at_append:
  "holds_at arr i (xs @ ys) \<longleftrightarrow> holds_at arr i xs \<and> holds_at arr (i + length xs) ys"
  by (induction xs arbitrary: i) (simp_all add: holds_at_Nil holds_at_Cons)

lemma read_count_nat: "array_get arr i = Number (real n) \<Longrightarrow> read_count arr i = Some n"
  by (simp add: read_count_def)

lemma unpackPositions_flatten:
  "holds_at arr i (flatten ps) \<Longrightarrow> unpackPositions (length ps) arr i = Some (ps, i + 3 * length ps)"
proof (induction ps arbitrary: i)
  case Nil
  show ?case by simp
next
  case (Cons p ps)
  from Cons.prems have c: "array_get arr i = Number (cart_x p)"
    "array_get arr (i + 1) = Number (cart_y p)" "array_get arr (i + 2) = Number (cart_z p)"
    and rest: "holds_at arr (i + 3) (flatten ps)"
    by (simp_all add: flatten_Cons holds_at_Cons numeral_3_eq_3 numeral_2_eq_2)
  have "Cartesian3_unpack arr i = Some p"
    using c by (simp add: Cartesian3_unpack_def)
  then show ?case using Cons.IH[OF rest] by simp
qed

lemma unpackHoles_if:
  assumes "\<And>h i. h \<in> set hs \<Longrightarrow> holds_at arr i (hierarchy_encoding h) \<Longrightarrow>
             unpackHierarchyWithin d arr i = Some (h, i + computeHierarchyPackedLength h)"
    and "holds_at arr i (concat (map hierarchy_encoding hs))"
  shows "unpackHolesWithin d (length hs) arr i =
           Some (hs, i + sum_list (map computeHierarchyPackedLength hs))"
  using assms
proof (induction hs arbitrary: i)
  case Nil
  show ?case by simp
next
  case (Cons h hs)
  from Cons.prems(2) have h1: "holds_at arr i (hierarchy_encoding h)"
    and h2: "holds_at arr (i + computeHierarchyPackedLength h) (concat (map hierarchy_encoding hs))"
    by (simp_all add: holds_at_append length_hierarchy_encoding)
  have a: "unpackHierarchyWithin d arr i = Some (h, i + computeHierarchyPackedLength h)"
    by (rule Cons.prems(1)[OF _ h1]) simp
  have b: "unpackHolesWithin d (length hs) arr (i + computeHierarchyPackedLength h) =
           Some (hs, i + computeHierarchyPackedLength h + sum_list (map computeHierarchyPackedLength hs))"
    by (rule Cons.IH[OF _ h2]) (simp add: Cons.prems(1))
  show ?case by (simp add: a b add.assoc)
qed

lemma member_le_sum_list: "h \<in> set hs \<Longrightarrow> f h \<le> sum_list (map f hs)" for f :: "'a \<Rightarrow> nat"
  by (induction hs) auto

lemma unpackHierarchyWithin_encoding:
  "holds_at arr i (hierarchy_encoding h) \<Longrightarrow> computeHierarchyPackedLength h \<le> d \<Longrightarrow>
     unpackHierarchyWithin d arr i = Some (h, i + computeHierarchyPackedLength h)"
proof (induction h arbitrary: i d)
  case (Hierarchy ps hs)
  from Hierarchy.prems(2) obtain d' where d: "d = Suc d'"
    by (cases d) simp_all
  from Hierarchy.prems(1) have c1: "array_get arr i = Number (real (length ps))"
    and c2: "holds_at arr (i + 1) (flatten ps)"
    and c3: "array_get arr (i + 1 + 3 * length ps) = Number (real (length hs))"
    and c4: "holds_at arr (i + 1 + 3 * length ps + 1) (concat (map hierarchy_encoding hs))"
    by (simp_all add: holds_at_Cons holds_at_append length_flatten)
  have small: "computeHierarchyPackedLength h \<le> d'" if "h \<in> set hs" for h
    using member_le_sum_list[OF that, of computeHierarchyPackedLength] Hierarchy.prems(2) d
    by simp
  have holes: "unpackHolesWithin d' (length hs) arr (i + 1 + 3 * length ps + 1) =
           Some (hs, i + 1 + 3 * length ps + 1 + sum_list (map computeHierarchyPackedLength hs))"
  proof (rule unpackHoles_if[OF _ c4])
    fix h j assume "h \<in> set hs" "holds_at arr j (hierarchy_encoding h)"
    then show "unpackHierarchyWithin d' arr j = Some (h, j + computeHierarchyPackedLength h)"
      using Hierarchy.IH small by blast
  qed
  have r1: "read_count arr i = Some (length ps)"
    by (rule read_count_nat[OF c1])
  have p: "unpackPositions (length ps) arr (i + 1) = Some (ps, i + 1 + 3 * length ps)"
    by (rule unpackPositions_flatten[OF c2])
  have r2: "read_count arr (i + 1 + 3 * length ps) = Some (length hs)"
    by (rule read_count_nat[OF c3])
  show ?case
    unfolding d using r1 p r2 holes by simp
qed

lemma holds_at_write_cells:
  "holds_at (write_cells arr i (map Number xs @ vs)) i xs"
  by (simp add: holds_at_def array_get_write_cells nth_append)

lemma pack_eq:
  "pack v arr off =
     write_cells arr (defaultValue off 0)
       (map Number (hierarchy_encoding (priv_polygonHierarchy v)) @ [packedLength v])"
  by (simp add: pack_def Let_def packPolygonHierarchy_eq write_cells_append
        length_hierarchy_encoding)

lemma array_get_pack:
  "array_get (pack v arr off) j =
     (let i0 = defaultValue off 0; n = computeHierarchyPackedLength (priv_polygonHierarchy v)
      in if i0 \<le> j \<and> j < i0 + n then Number (hierarchy_encoding (priv_polygonHierarchy v) ! (j - i0))
         else if j = i0 + n then packedLength v
         else array_get arr j)"
  by (auto simp: pack_eq array_get_write_cells length_hierarchy_encoding nth_append Let_def)

lemma length_pack:
  "length (pack v arr off) =
     max (length arr) (defaultValue off 0 + computeHierarchyPackedLength (priv_polygonHierarchy v) + 1)"
  by (simp add: pack_eq length_write_cells length_hierarchy_encoding)

lemma unpackPolygonHierarchy_pack:
  "unpackPolygonHierarchy (pack v arr off) (defaultValue off 0) =
     Some (priv_polygonHierarchy v,
           defaultValue off 0 + computeHierarchyPackedLength (priv_polygonHierarchy v))"
  unfolding unpackPolygonHierarchy_def
proof (rule unpackHierarchyWithin_encoding)
  show "holds_at (pack v arr off) (defaultValue off 0) (hierarchy_encoding (priv_polygonHierarchy v))"
    unfolding pack_eq by (rule holds_at_write_cells)
  show "computeHierarchyPackedLength (priv_polygonHierarchy v) \<le> length (pack v arr off)"
    by (simp add: length_pack)
qed

lemma scratch_instance:
  "\<exists>d. CoplanarPolygonOutlineGeometry (Some scratchOptions) = Inr d"
  by (simp add: CoplanarPolygonOutlineGeometry_def scratchOptions_def defaultValue_def
        Check_defined_def)

lemma array_get_pack_end:
  "array_get (pack v arr off)
     (defaultValue off 0 + computeHierarchyPackedLength (priv_polygonHierarchy v)) =
   packedLength v"
  by (simp add: array_get_pack Let_def)

section \<open>createGeometry and the sample library\<close>

lemma createGeometry_descriptor: "fst (createGeometry L d) = d"
  by (simp add: createGeometry_def Let_def split: list.split)

lemma createGeometry_store_ellipsoid:
  "snd (createGeometry L (store_ellipsoid L d)) = snd (createGeometry L d)"
  by (simp add: createGeometry_def store_ellipsoid_def Let_def split: list.split)

lemma merge_instances_nonempty: "gs \<noteq> [] \<Longrightarrow> merge_instances gs \<noteq> []"
  by (cases gs) (simp_all add: merge_instances_def)

lemma sample_dedup:
  "remove_duplicates rectangle_twice (\<lambda>p q. p = q) True = rectangle"
  "remove_duplicates [point 0 0 0, point 0 0 0] (\<lambda>p q. p = q) True = [point 0 0 0]"
  by (simp_all add: remove_duplicates_def rectangle_twice_def rectangle_def point_def)

lemma sample_createGeometry:
  "\<exists>g. snd (createGeometry sample_library
              (descriptor_of (Hierarchy rectangle_twice []) (Number 18))) = Inr (Some g)"
  by (simp add: createGeometry_def descriptor_of_def sample_library_def sample_dedup
        rectangle_def merge_instances_def Let_def)

text \<open>
  With routines that only read, the model that passes the hierarchy in memory along is the
  model over functions; with a deduplication in place it is not, and the descriptor comes
  back with the shortened ring.
\<close>

lemma createGeometry_st_pure: "createGeometry_st (writing_of L) d = createGeometry L d"
  by (simp add: createGeometry_st_def createGeometry_def writing_of_def Let_def
        split: list.split)

lemma keeps_hierarchy_writing_of: "keeps_hierarchy (writing_of L)"
  by (simp add: keeps_hierarchy_def writing_of_def)

lemma in_place_deduplication_seen:
  "fst (createGeometry_st in_place_library
          (descriptor_of (Hierarchy rectangle_twice []) (Number 18))) =
     descriptor_of (Hierarchy rectangle []) (Number 18) \<and>
   descriptor_of (Hierarchy rectangle []) (Number 18) \<noteq>
     descriptor_of (Hierarchy rectangle_twice []) (Number 18) \<and>
   \<not> keeps_hierarchy in_place_library"
proof -
  let ?d = "descriptor_of (Hierarchy rectangle_twice []) (Number 18)"
  have a: "fst (createGeometry_st in_place_library ?d) =
             descriptor_of (Hierarchy rectangle []) (Number 18)"
    by (simp add: createGeometry_st_def in_place_library_def writing_of_def
          sample_library_def descriptor_of_def sample_dedup rectangle_def Let_def
          merge_instances_def)
  have b: "descriptor_of (Hierarchy rectangle []) (Number 18) \<noteq> ?d"
    by (simp add: descriptor_of_def rectangle_def rectangle_twice_def)
  have ne: "rectangle \<noteq> rectangle_twice"
    by (simp add: rectangle_def rectangle_twice_def)
  have "snd (arrayRemoveDuplicates_w in_place_library rectangle_twice (\<lambda>p q. p = q) True
               (Hierarchy rectangle_twice [])) \<noteq> Hierarchy rectangle_twice []"
    using ne by (simp add: in_place_library_def writing_of_def sample_dedup)
  then have c: "\<not> keeps_hierarchy in_place_library"
    unfolding keeps_hierarchy_def by blast
  from a b c show ?thesis by blast
qed

text \<open>
  The end-to-end example of section 8 of the specification: four vertices, the index
  buffer \<open>0, 1, 1, 2, 2, 3, 3, 0\<close>, and a bounding sphere of the four points.
\<close>

lemma ring_edges_4: "ring_edges 4 = [0, 1, 1, 2, 2, 3, 3, 0]"
  by code_simp

lemma sample_rectangle_geometry:
  "snd (createGeometry sample_library (descriptor_of (Hierarchy rectangle []) (Number 15))) =
     Inr (Some \<lparr>attributes =
                  \<lparr>position = \<lparr>componentDatatype = DOUBLE, componentsPerAttribute = 3,
                                attr_values = [0, 0, 0, 0, 0, 1, 1, 0, 1, 1, 0, 0]\<rparr>\<rparr>,
                indices = [0, 1, 1, 2, 2, 3, 3, 0], primitiveType = LINES,
                boundingSphere = Some rectangle\<rparr>)"
proof -
  have d: "remove_duplicates rectangle (\<lambda>p q. p = q) True = rectangle"
    by (simp add: remove_duplicates_def rectangle_def point_def)
  have len: "length rectangle = 4" by (simp add: rectangle_def)
  have fl: "flatten rectangle = [0, 0, 0, 0, 0, 1, 1, 0, 1, 1, 0, 0]"
    by (simp add: flatten_def rectangle_def point_def)
  show ?thesis
    by (simp add: createGeometry_def descriptor_of_def sample_library_def d len Let_def
          merge_instances_def createGeometryFromPositions_eq fl ring_edges_4)
qed

section \<open>The claims\<close>

subsection \<open>The geometry builder\<close>

text \<open>
  Claim C1. For every list of points, \<open>createGeometryFromPositions\<close> returns a geometry
  whose position attribute holds three doubles per point, the \<open>x\<close>, \<open>y\<close>, \<open>z\<close> of each
  point in input order, whose index buffer has twice as many entries as there are points
  and holds, for each \<open>i\<close>, the pair \<open>i\<close>, \<open>(i + 1) mod N\<close> at the entries \<open>2 i\<close> and
  \<open>2 i + 1\<close>, and whose primitive type is \<open>LINES\<close>. Three or more distinct points are a
  special case.
\<close>

theorem createGeometryFromPositions_outline:
  fixes ps :: "cartesian3 list" and g :: "'b geometry"
  assumes "g = createGeometryFromPositions ps"
  shows "componentDatatype (position (attributes g)) = DOUBLE \<and>
         componentsPerAttribute (position (attributes g)) = 3 \<and>
         attr_values (position (attributes g)) = flatten ps \<and>
         length (attr_values (position (attributes g))) = 3 * length ps \<and>
         (\<forall>i < length ps.
            attr_values (position (attributes g)) ! (3 * i) = cart_x (ps ! i) \<and>
            attr_values (position (attributes g)) ! (3 * i + 1) = cart_y (ps ! i) \<and>
            attr_values (position (attributes g)) ! (3 * i + 2) = cart_z (ps ! i)) \<and>
         length (indices g) = 2 * length ps \<and>
         (\<forall>i < length ps.
            indices g ! (2 * i) = i \<and> indices g ! (2 * i + 1) = (i + 1) mod length ps) \<and>
         primitiveType g = LINES"
  unfolding assms createGeometryFromPositions_eq
  using flatten_nth[of _ ps] ring_edges_nth[of _ "length ps"]
  by (simp add: length_flatten length_ring_edges)

text \<open>On the rectangle of section 8: the last edge closes the ring, from vertex 3 to vertex 0.\<close>

theorem createGeometryFromPositions_outline_witness:
  "indices (createGeometryFromPositions rectangle :: unit geometry) ! 7 = 0 \<and>
   indices (createGeometryFromPositions rectangle :: unit geometry) ! 6 = 3 \<and>
   length (indices (createGeometryFromPositions rectangle :: unit geometry)) = 8 \<and>
   attr_values (position (attributes (createGeometryFromPositions rectangle :: unit geometry))) ! 8 = 1 \<and>
   primitiveType (createGeometryFromPositions rectangle :: unit geometry) = LINES"
proof -
  let ?g = "createGeometryFromPositions rectangle :: unit geometry"
  have len: "length rectangle = 4" by (simp add: rectangle_def)
  note t = createGeometryFromPositions_outline[of ?g rectangle, OF refl]
  from t have a: "\<forall>i < length rectangle. indices ?g ! (2 * i) = i \<and>
                    indices ?g ! (2 * i + 1) = (i + 1) mod length rectangle"
    by blast
  from t have b: "\<forall>i < length rectangle.
            attr_values (position (attributes ?g)) ! (3 * i) = cart_x (rectangle ! i) \<and>
            attr_values (position (attributes ?g)) ! (3 * i + 1) = cart_y (rectangle ! i) \<and>
            attr_values (position (attributes ?g)) ! (3 * i + 2) = cart_z (rectangle ! i)"
    by blast
  have "(3::nat) < length rectangle" "(2::nat) < length rectangle" by (simp_all add: len)
  then have "indices ?g ! (2 * 3) = 3 \<and> indices ?g ! (2 * 3 + 1) = (3 + 1) mod length rectangle"
    and "attr_values (position (attributes ?g)) ! (3 * 2 + 2) = cart_z (rectangle ! 2)"
    using a[rule_format, of 3] b[rule_format, of 2] by blast+
  moreover from t len have "length (indices ?g) = 8" "primitiveType ?g = LINES" by simp_all
  ultimately show ?thesis by (simp add: rectangle_def point_def)
qed

subsection \<open>The descriptor\<close>

text \<open>
  Claim C7. The constructor raises a \<open>DeveloperError\<close> when \<open>options.polygonHierarchy\<close>
  is undefined (also when there are no options at all); for every hierarchy it succeeds,
  and \<open>packedLength\<close> is the packed length of the hierarchy plus one.
\<close>

theorem constructor_contract:
  fixes opts :: "options option"
  shows "(polygonHierarchy (defaultValue opts EMPTY_OBJECT) = None \<longrightarrow>
           (\<exists>m. (CoplanarPolygonOutlineGeometry opts :: error + 'e descriptor) =
                  Inl (DeveloperError m))) \<and>
         (\<forall>h. polygonHierarchy (defaultValue opts EMPTY_OBJECT) = Some h \<longrightarrow>
           (\<exists>d. (CoplanarPolygonOutlineGeometry opts :: error + 'e descriptor) = Inr d \<and>
                priv_polygonHierarchy d = h \<and>
                packedLength d = Number (real (computeHierarchyPackedLength h + 1))))"
  by (simp add: CoplanarPolygonOutlineGeometry_def Check_defined_def Let_def)

text \<open>Without options the constructor raises; the rectangle takes 14 cells and one.\<close>

theorem constructor_contract_witness:
  "(\<exists>m. (CoplanarPolygonOutlineGeometry None :: error + unit descriptor) =
          Inl (DeveloperError m)) \<and>
   (\<exists>d. (CoplanarPolygonOutlineGeometry
            (Some \<lparr>polygonHierarchy = Some (Hierarchy rectangle []), opt_positions = None\<rparr>)
          :: error + unit descriptor) = Inr d \<and>
        priv_polygonHierarchy d = Hierarchy rectangle [] \<and>
        packedLength d = Number 15)"
  using constructor_contract[of None, where 'e = unit]
        constructor_contract[of
          "Some \<lparr>polygonHierarchy = Some (Hierarchy rectangle []), opt_positions = None\<rparr>",
          where 'e = unit]
  by (simp add: defaultValue_def EMPTY_OBJECT_def rectangle_def)

text \<open>
  Claim C8. For options with a \<open>positions\<close> array, \<open>fromPositions\<close> returns what the
  constructor returns for any options whose hierarchy is the single ring of these
  positions without holes, and this is a descriptor.
\<close>

theorem fromPositions_single_ring:
  fixes opts opts' :: options
  assumes "opt_positions opts = Some ps"
    and "polygonHierarchy opts' = Some (Hierarchy ps [])"
  shows "(fromPositions (Some opts) :: error + 'e descriptor) =
           CoplanarPolygonOutlineGeometry (Some opts') \<and>
         (\<exists>d. (fromPositions (Some opts) :: error + 'e descriptor) = Inr d \<and>
              positions (priv_polygonHierarchy d) = ps \<and>
              holes (priv_polygonHierarchy d) = [])"
  using assms
  by (simp add: fromPositions_def CoplanarPolygonOutlineGeometry_def Check_defined_def
        defaultValue_def Let_def)

text \<open>On the rectangle.\<close>

theorem fromPositions_single_ring_witness:
  "(fromPositions (Some \<lparr>polygonHierarchy = None, opt_positions = Some rectangle\<rparr>)
      :: error + unit descriptor) =
   CoplanarPolygonOutlineGeometry
     (Some \<lparr>polygonHierarchy = Some (Hierarchy rectangle []), opt_positions = None\<rparr>) \<and>
   (\<exists>d. (fromPositions (Some \<lparr>polygonHierarchy = None, opt_positions = Some rectangle\<rparr>)
           :: error + unit descriptor) = Inr d \<and>
        positions (priv_polygonHierarchy d) = rectangle \<and>
        holes (priv_polygonHierarchy d) = [])"
proof -
  have h1: "opt_positions \<lparr>polygonHierarchy = None, opt_positions = Some rectangle\<rparr> =
              Some rectangle"
    by simp
  have h2: "polygonHierarchy
              \<lparr>polygonHierarchy = Some (Hierarchy rectangle []), opt_positions = None\<rparr> =
              Some (Hierarchy rectangle [])"
    by simp
  show ?thesis by (rule fromPositions_single_ring[OF h1 h2])
qed

subsection \<open>pack and unpack\<close>

text \<open>
  Claim C6. \<open>pack\<close> stores the encoding of the hierarchy (point count, coordinates, hole
  count, then each hole in the same way) in the cells from the starting index on, stores
  the descriptor's \<open>packedLength\<close> in the one cell after the encoding, and returns the
  array it was given: every other cell is as before, and the array is longer only if the
  stores went past its end.
\<close>

theorem pack_layout:
  fixes v :: "'e descriptor"
  defines "h \<equiv> priv_polygonHierarchy v"
  shows "(\<forall>k < length (hierarchy_encoding h).
            array_get (pack v arr off) (defaultValue off 0 + k) =
              Number (hierarchy_encoding h ! k)) \<and>
         array_get (pack v arr off) (defaultValue off 0 + length (hierarchy_encoding h)) =
           packedLength v \<and>
         (\<forall>j. j < defaultValue off 0 \<or> defaultValue off 0 + length (hierarchy_encoding h) < j \<longrightarrow>
            array_get (pack v arr off) j = array_get arr j) \<and>
         length (pack v arr off) =
           max (length arr) (defaultValue off 0 + length (hierarchy_encoding h) + 1)"
  unfolding h_def
  by (simp add: array_get_pack length_pack length_hierarchy_encoding Let_def)

text \<open>One point packed at index 1 of a one-cell array: the cells are \<open>7, 1, 1, 2, 3, 0, 6\<close>.\<close>

theorem pack_layout_witness:
  "array_get (pack (descriptor_of (Hierarchy [point 1 2 3] []) (Number 6)) [Number 7] (Some 1))
     (1 + 1) = Number 1 \<and>
   array_get (pack (descriptor_of (Hierarchy [point 1 2 3] []) (Number 6)) [Number 7] (Some 1))
     (1 + 5) = Number 6 \<and>
   array_get (pack (descriptor_of (Hierarchy [point 1 2 3] []) (Number 6)) [Number 7] (Some 1))
     0 = Number 7 \<and>
   length (pack (descriptor_of (Hierarchy [point 1 2 3] []) (Number 6)) [Number 7] (Some 1)) = 7"
proof -
  let ?v = "descriptor_of (Hierarchy [point 1 2 3] []) (Number 6)"
  have enc: "hierarchy_encoding (priv_polygonHierarchy ?v) = [1, 1, 2, 3, 0]"
    by (simp add: descriptor_of_def flatten_def point_def)
  note t = pack_layout[of ?v "[Number 7]" "Some 1", unfolded enc]
  from t have "\<forall>k < length [1, 1, 2, 3, 0 :: real].
            array_get (pack ?v [Number 7] (Some 1)) (defaultValue (Some 1) 0 + k) =
              Number ([1, 1, 2, 3, 0] ! k)"
    by blast
  from this[rule_format, of 1]
  have c1: "array_get (pack ?v [Number 7] (Some 1)) (1 + 1) = Number 1"
    by (simp add: defaultValue_def)
  have e: "defaultValue (Some 1) 0 + length [1, 1, 2, 3, 0 :: real] = 1 + 5"
    by (simp add: defaultValue_def)
  from t have "array_get (pack ?v [Number 7] (Some 1))
                 (defaultValue (Some 1) 0 + length [1, 1, 2, 3, 0 :: real]) = packedLength ?v"
    by blast
  then have c2: "array_get (pack ?v [Number 7] (Some 1)) (1 + 5) = Number 6"
    unfolding e by (simp add: descriptor_of_def)
  from t have "\<forall>j. j < defaultValue (Some 1) 0 \<or>
                  defaultValue (Some 1) 0 + length [1, 1, 2, 3, 0 :: real] < j \<longrightarrow>
            array_get (pack ?v [Number 7] (Some 1)) j = array_get [Number 7] j"
    by blast
  from this[rule_format, of 0]
  have c3: "array_get (pack ?v [Number 7] (Some 1)) 0 = Number 7"
    by (simp add: defaultValue_def array_get_def)
  from t have "length (pack ?v [Number 7] (Some 1)) =
                 max (length [Number 7])
                   (defaultValue (Some 1) 0 + length [1, 1, 2, 3, 0 :: real] + 1)"
    by blast
  then have c4: "length (pack ?v [Number 7] (Some 1)) = 7"
    unfolding e by simp
  from c1 c2 c3 c4 show ?thesis by blast
qed

text \<open>
  Claim C10. \<open>pack\<close> leaves every cell below the starting index as it was, and changes
  no cell outside the cells it needs: those of the hierarchy and one more. The
  \<open>packedLength\<close> of a descriptor is "the number of elements used to pack the object
  into an array" (lines 144 to 147): for every descriptor that the constructor returns,
  and for every descriptor whose \<open>packedLength\<close> is a count not below the cells needed,
  \<open>pack\<close> changes only cells in the \<open>packedLength\<close> cells from the starting index on.
\<close>

theorem pack_frame:
  fixes v :: "'e descriptor"
  shows "(\<forall>j < defaultValue off 0. array_get (pack v arr off) j = array_get arr j) \<and>
         changes_only_within arr (pack v arr off) (defaultValue off 0)
           (defaultValue off 0 + (computeHierarchyPackedLength (priv_polygonHierarchy v) + 1)) \<and>
         (\<forall>n. packedLength v = Number (real n) \<longrightarrow>
              computeHierarchyPackedLength (priv_polygonHierarchy v) + 1 \<le> n \<longrightarrow>
              changes_only_within arr (pack v arr off) (defaultValue off 0)
                (defaultValue off 0 + n)) \<and>
         (\<forall>opts. CoplanarPolygonOutlineGeometry opts = Inr v \<longrightarrow>
              (\<exists>n. packedLength v = Number (real n) \<and>
                   changes_only_within arr (pack v arr off) (defaultValue off 0)
                     (defaultValue off 0 + n)))"
proof -
  let ?i0 = "defaultValue off 0"
  let ?c = "computeHierarchyPackedLength (priv_polygonHierarchy v) + 1"
  have below: "\<forall>j < ?i0. array_get (pack v arr off) j = array_get arr j"
    by (simp add: array_get_pack Let_def)
  have wide: "changes_only_within arr (pack v arr off) ?i0 (?i0 + n)" if "?c \<le> n" for n
    using that by (simp add: changes_only_within_def array_get_pack Let_def)
  have built: "\<exists>n. packedLength v = Number (real n) \<and>
                  changes_only_within arr (pack v arr off) ?i0 (?i0 + n)"
    if "CoplanarPolygonOutlineGeometry opts = Inr v" for opts
  proof -
    from that have "packedLength v = Number (real ?c)"
      by (auto simp: CoplanarPolygonOutlineGeometry_def Check_defined_def Let_def
            split: option.splits)
    with wide[of ?c] show ?thesis by blast
  qed
  from below wide[of ?c] wide built show ?thesis by blast
qed

text \<open>
  The descriptor that the constructor returns for one point, packed at index 1: the six
  cells from 1 on may change, cell 0 does not.
\<close>

theorem pack_frame_witness:
  "(CoplanarPolygonOutlineGeometry
      (Some \<lparr>polygonHierarchy = Some (Hierarchy [point 1 2 3] []), opt_positions = None\<rparr>)
    :: error + unit descriptor) =
     Inr (descriptor_of (Hierarchy [point 1 2 3] []) (Number 6)) \<and>
   changes_only_within [Number 7]
     (pack (descriptor_of (Hierarchy [point 1 2 3] []) (Number 6)) [Number 7] (Some 1)) 1 (1 + 6) \<and>
   array_get (pack (descriptor_of (Hierarchy [point 1 2 3] []) (Number 6)) [Number 7] (Some 1)) 0
     = Number 7"
proof -
  let ?v = "descriptor_of (Hierarchy [point 1 2 3] []) (Number 6)"
  let ?o = "Some \<lparr>polygonHierarchy = Some (Hierarchy [point 1 2 3] []), opt_positions = None\<rparr>"
  note t = pack_frame[of "Some 1" ?v "[Number 7]"]
  have c: "(CoplanarPolygonOutlineGeometry ?o :: error + unit descriptor) = Inr ?v"
    by (simp add: CoplanarPolygonOutlineGeometry_def Check_defined_def defaultValue_def
          descriptor_of_def)
  from t have "\<forall>opts. CoplanarPolygonOutlineGeometry opts = Inr ?v \<longrightarrow>
              (\<exists>n. packedLength ?v = Number (real n) \<and>
                   changes_only_within [Number 7] (pack ?v [Number 7] (Some 1))
                     (defaultValue (Some 1) 0) (defaultValue (Some 1) 0 + n))"
    by blast
  with c obtain n where n: "packedLength ?v = Number (real n)"
    and w: "changes_only_within [Number 7] (pack ?v [Number 7] (Some 1))
              (defaultValue (Some 1) 0) (defaultValue (Some 1) 0 + n)"
    by blast
  from n have "n = 6" by (simp add: descriptor_of_def)
  with w have a: "changes_only_within [Number 7] (pack ?v [Number 7] (Some 1)) 1 (1 + 6)"
    by (simp add: defaultValue_def)
  from t have "\<forall>j < defaultValue (Some 1) 0.
                 array_get (pack ?v [Number 7] (Some 1)) j = array_get [Number 7] j"
    by blast
  from this[rule_format, of 0]
  have "array_get (pack ?v [Number 7] (Some 1)) 0 = Number 7"
    by (simp add: defaultValue_def array_get_def)
  with a c show ?thesis by blast
qed

text \<open>
  Claim C2. For every descriptor, array and offset, and with or without a result object,
  \<open>unpack\<close> at the offset of the array that \<open>pack\<close> filled at that offset succeeds, and
  returns a descriptor with the same hierarchy (outer ring, holes and holes of holes, with
  their coordinates) and the same \<open>packedLength\<close>. A JavaScript array grows under the
  stores, so every array is large enough.
\<close>

theorem unpack_pack_roundtrip:
  "\<exists>d. unpack (pack v arr off) off result = Inr d \<and>
       priv_polygonHierarchy d = priv_polygonHierarchy v \<and>
       packedLength d = packedLength v"
proof -
  obtain r where r: "(case result of
                         None \<Rightarrow> CoplanarPolygonOutlineGeometry (Some scratchOptions)
                       | Some r \<Rightarrow> Inr r) = Inr r"
    using scratch_instance by (cases result) auto
  have "unpack (pack v arr off) off result =
          Inr (r\<lparr>priv_polygonHierarchy := priv_polygonHierarchy v,
                 packedLength := packedLength v\<rparr>)"
    unfolding unpack_def Let_def unpackPolygonHierarchy_pack
    by (simp add: r array_get_pack_end)
  then show ?thesis by simp
qed

text \<open>A triangle with two holes, one of them with a hole of its own, packed at index 2.\<close>

theorem unpack_pack_roundtrip_witness:
  "\<exists>d. unpack (pack (descriptor_of nested_hierarchy (Number 39)) [Number 5] (Some 2))
          (Some 2) None = Inr (d :: unit descriptor) \<and>
       priv_polygonHierarchy d = nested_hierarchy \<and> packedLength d = Number 39"
  using unpack_pack_roundtrip[of "descriptor_of nested_hierarchy (Number 39)" "[Number 5]"
          "Some 2" None]
  by (simp add: descriptor_of_def)

subsection \<open>createGeometry\<close>

text \<open>
  Claim C3. \<open>createGeometry\<close> returns \<open>undefined\<close>, and raises nothing, exactly when the
  input is degenerate: fewer than three points are left of the outer ring after
  deduplication, or these points are not a valid outline, or the hierarchy has no outline
  rings. On every other input it returns a geometry, provided \<open>combineInstances\<close> returns
  at least one geometry for a list of instances that is not empty.
\<close>

theorem createGeometry_undefined_iff:
  "(snd (createGeometry L d) = Inr None \<longleftrightarrow> degenerate L d) \<and>
   ((\<forall>gs. gs \<noteq> [] \<longrightarrow> combineInstances L gs \<noteq> []) \<longrightarrow> \<not> degenerate L d \<longrightarrow>
      (\<exists>g. snd (createGeometry L d) = Inr (Some g)))"
proof -
  let ?polygons = "polygonOutlinesFromHierarchy L (priv_polygonHierarchy d) False"
  let ?gs = "map (\<lambda>p. \<lparr>geometry = createGeometryFromPositions p\<rparr>) ?polygons"
  have iff: "snd (createGeometry L d) = Inr None \<longleftrightarrow> degenerate L d"
    by (cases "combineInstances L ?gs")
       (auto simp: createGeometry_def degenerate_def Let_def)
  have "\<exists>g. snd (createGeometry L d) = Inr (Some g)"
    if lib: "\<forall>gs. gs \<noteq> [] \<longrightarrow> combineInstances L gs \<noteq> []" and nd: "\<not> degenerate L d"
  proof -
    from nd have "?polygons \<noteq> []" by (simp add: degenerate_def Let_def)
    then have "?gs \<noteq> []" by simp
    with lib obtain g rest where "combineInstances L ?gs = g # rest"
      by (cases "combineInstances L ?gs") auto
    with nd show ?thesis
      by (simp add: createGeometry_def degenerate_def Let_def)
  qed
  with iff show ?thesis by blast
qed

text \<open>With the sample library: two equal points are degenerate, the rectangle is not.\<close>

theorem createGeometry_undefined_iff_witness:
  "degenerate sample_library (descriptor_of (Hierarchy [point 0 0 0, point 0 0 0] []) (Number 9)) \<and>
   snd (createGeometry sample_library
          (descriptor_of (Hierarchy [point 0 0 0, point 0 0 0] []) (Number 9))) = Inr None \<and>
   \<not> degenerate sample_library (descriptor_of (Hierarchy rectangle_twice []) (Number 18)) \<and>
   (\<exists>g. snd (createGeometry sample_library
               (descriptor_of (Hierarchy rectangle_twice []) (Number 18))) = Inr (Some g))"
proof -
  have lib: "\<forall>gs. gs \<noteq> [] \<longrightarrow>
               combineInstances sample_library (gs :: cartesian3 list geometryInstance list) \<noteq> []"
    by (simp add: sample_library_def merge_instances_nonempty)
  have a: "degenerate sample_library
             (descriptor_of (Hierarchy [point 0 0 0, point 0 0 0] []) (Number 9))"
    by (simp add: degenerate_def descriptor_of_def sample_library_def sample_dedup)
  have b: "\<not> degenerate sample_library (descriptor_of (Hierarchy rectangle_twice []) (Number 18))"
    by (simp add: degenerate_def descriptor_of_def sample_library_def sample_dedup rectangle_def)
  from a b lib show ?thesis
    using createGeometry_undefined_iff[of sample_library
            "descriptor_of (Hierarchy [point 0 0 0, point 0 0 0] []) (Number 9)"]
          createGeometry_undefined_iff[of sample_library
            "descriptor_of (Hierarchy rectangle_twice []) (Number 18)"]
    by blast
qed

text \<open>
  Claim C4. Whenever \<open>createGeometry\<close> returns a geometry, its bounding sphere is
  \<open>BoundingSphere.fromPoints\<close> of the outer ring of the hierarchy as the descriptor holds
  it, not of the deduplicated points.
\<close>

theorem createGeometry_boundingSphere:
  "snd (createGeometry L d) = Inr (Some g) \<Longrightarrow>
     boundingSphere g = Some (fromPoints L (positions (priv_polygonHierarchy d)))"
  by (auto simp: createGeometry_def Let_def split: if_splits list.splits)

text \<open>The rectangle with a corner twice: the sphere is taken of all five points, the outline of four.\<close>

theorem createGeometry_boundingSphere_witness:
  "\<exists>g. snd (createGeometry sample_library
              (descriptor_of (Hierarchy rectangle_twice []) (Number 18))) = Inr (Some g) \<and>
       boundingSphere g = Some rectangle_twice \<and>
       arrayRemoveDuplicates sample_library rectangle_twice (equalsEpsilon sample_library) True
         = rectangle \<and>
       rectangle \<noteq> rectangle_twice"
proof -
  let ?d = "descriptor_of (Hierarchy rectangle_twice []) (Number 18)"
  obtain g where g: "snd (createGeometry sample_library ?d) = Inr (Some g)"
    using sample_createGeometry by blast
  have "boundingSphere g = Some (fromPoints sample_library (positions (priv_polygonHierarchy ?d)))"
    by (rule createGeometry_boundingSphere[OF g])
  then have "boundingSphere g = Some rectangle_twice"
    by (simp add: sample_library_def descriptor_of_def)
  moreover have "arrayRemoveDuplicates sample_library rectangle_twice
                   (equalsEpsilon sample_library) True = rectangle"
    by (simp add: sample_library_def sample_dedup)
  moreover have "rectangle \<noteq> rectangle_twice"
    by (simp add: rectangle_def rectangle_twice_def)
  ultimately show ?thesis using g by blast
qed



subsection \<open>The worker entry point\<close>

text \<open>
  Claim C5 as stated fails: on a descriptor fresh from the constructor, without an offset,
  the entry point leaves the descriptor with an \<open>_ellipsoid\<close> property it did not have,
  which the dispatcher of section 4.5 does not.
\<close>

theorem entry_point_counterexample:
  "fst (createCoplanarPolygonOutlineGeometry sample_library
          (Instance (descriptor_of (Hierarchy rectangle []) (Number 15))) None) =
     Instance ((descriptor_of (Hierarchy rectangle []) (Number 15))
                 \<lparr>priv_ellipsoid := Property None\<rparr>) \<and>
   fst (thin_dispatcher sample_library
          (Instance (descriptor_of (Hierarchy rectangle []) (Number 15))) None) =
     Instance (descriptor_of (Hierarchy rectangle []) (Number 15)) \<and>
   createCoplanarPolygonOutlineGeometry sample_library
     (Instance (descriptor_of (Hierarchy rectangle []) (Number 15))) None \<noteq>
   thin_dispatcher sample_library
     (Instance (descriptor_of (Hierarchy rectangle []) (Number 15))) None"
proof -
  let ?d = "descriptor_of (Hierarchy rectangle []) (Number 15)"
  have a: "fst (createCoplanarPolygonOutlineGeometry sample_library (Instance ?d) None) =
             Instance (?d\<lparr>priv_ellipsoid := Property None\<rparr>)"
    by (simp add: createCoplanarPolygonOutlineGeometry_def defined_def split_beta
          createGeometry_descriptor store_ellipsoid_def sample_library_def descriptor_of_def)
  have b: "fst (thin_dispatcher sample_library (Instance ?d) None) = Instance ?d"
    by (simp add: thin_dispatcher_def defined_def split_beta createGeometry_descriptor)
  have "?d\<lparr>priv_ellipsoid := Property None\<rparr> \<noteq> ?d"
    by (simp add: descriptor_of_def)
  with a b show ?thesis by (metis worker_arg.inject(2))
qed

text \<open>
  Claim C5, as amended. The worker entry point returns what the dispatcher of section 4.5
  returns: \<open>createGeometry\<close> of the descriptor unpacked at the offset when there is an
  offset, of the argument otherwise. It has one more effect: without an offset it stores
  \<open>Ellipsoid.clone\<close> of the argument's \<open>_ellipsoid\<close> in the argument's \<open>_ellipsoid\<close>
  property; every other property of the argument, and a packed array, are left as they
  were.
\<close>

theorem entry_point_effect:
  "snd (createCoplanarPolygonOutlineGeometry L a off) = snd (thin_dispatcher L a off) \<and>
   fst (createCoplanarPolygonOutlineGeometry L a off) =
     (case a of
        PackedArray arr \<Rightarrow> a
      | Instance d \<Rightarrow>
          if defined off then a
          else Instance (d\<lparr>priv_ellipsoid :=
                            Property (Ellipsoid_clone L (read_property (priv_ellipsoid d)))\<rparr>))"
proof (cases "defined off")
  case True
  then show ?thesis
    by (cases a)
       (simp_all add: createCoplanarPolygonOutlineGeometry_def thin_dispatcher_def
          createGeometry_store_ellipsoid split: sum.split)
next
  case False
  show ?thesis
  proof (cases a)
    case (PackedArray arr)
    with False show ?thesis
      by (simp add: createCoplanarPolygonOutlineGeometry_def thin_dispatcher_def)
  next
    case (Instance d)
    have "fst (createGeometry L (store_ellipsoid L d)) = store_ellipsoid L d"
      by (rule createGeometry_descriptor)
    with False Instance show ?thesis
      using createGeometry_store_ellipsoid[of L d]
      by (simp add: createCoplanarPolygonOutlineGeometry_def thin_dispatcher_def
            split_beta store_ellipsoid_def)
  qed
qed

text \<open>On the rectangle without an offset, and on a packed array with one.\<close>

theorem entry_point_effect_witness:
  "snd (createCoplanarPolygonOutlineGeometry sample_library
          (Instance (descriptor_of (Hierarchy rectangle []) (Number 15))) None) =
   snd (thin_dispatcher sample_library
          (Instance (descriptor_of (Hierarchy rectangle []) (Number 15))) None) \<and>
   fst (createCoplanarPolygonOutlineGeometry sample_library
          (Instance (descriptor_of (Hierarchy rectangle []) (Number 15))) None) =
     Instance ((descriptor_of (Hierarchy rectangle []) (Number 15))
                 \<lparr>priv_ellipsoid := Property None\<rparr>) \<and>
   fst (createCoplanarPolygonOutlineGeometry sample_library
          (PackedArray [Number 0, Number 0, Number 3]) (Some 0)) =
     PackedArray [Number 0, Number 0, Number 3]"
  using entry_point_effect[of sample_library
          "Instance (descriptor_of (Hierarchy rectangle []) (Number 15))" None]
        entry_point_effect[of sample_library
          "PackedArray [Number 0, Number 0, Number 3]" "Some 0"]
  by (simp add: defined_def sample_library_def descriptor_of_def)

end
